theory Spec2Isabelle
  imports Main "HOL-Library.Word"
begin

section \<open>The FinancialAudit contract\<close>

text \<open>
  The program is the Solidity contract \<^verbatim>\<open>FinancialAudit\<close> (pragma 0.8.24) that the hardhat
  test suite deploys. This theory embeds its storage, its modifiers and its external
  functions, and proves the ledger properties stated about it.
\<close>

subsection \<open>Value types\<close>

type_synonym uint256 = "256 word"
type_synonym address = "160 word"
type_synonym bytes32 = "256 word"
type_synonym bytes = "8 word list"

text \<open>
  \<^verbatim>\<open>abi.encodePacked\<close> writes a \<^verbatim>\<open>uint256\<close> or \<^verbatim>\<open>bytes32\<close> as 32 big-endian bytes, an
  \<^verbatim>\<open>address\<close> as 20 big-endian bytes and a \<^verbatim>\<open>string\<close> as its bytes, without padding.
\<close>

definition be_bytes :: "nat \<Rightarrow> 'a::len word \<Rightarrow> bytes" where
  "be_bytes n w = map (\<lambda>i. ucast (drop_bit (8 * i) w)) (rev [0..<n])"

definition encodePacked_uint256 :: "uint256 \<Rightarrow> bytes" where
  "encodePacked_uint256 w = be_bytes 32 w"

definition encodePacked_address :: "address \<Rightarrow> bytes" where
  "encodePacked_address a = be_bytes 20 a"

definition encodePacked_string :: "string \<Rightarrow> bytes" where
  "encodePacked_string str = map of_char str"

subsection \<open>Storage\<close>

record PrivateAccount =
  encryptedBalance :: bytes32
  encryptedTransactions :: bytes32
  isActive :: bool
  lastUpdated :: uint256
  accountOwner :: address
  accountType :: bytes32

record AuditRecord =
  accountId :: uint256
  auditedBalance :: bytes32
  discrepancyFlag :: bytes32
  auditTimestamp :: uint256
  isCompleted :: bool
  auditType :: bytes32

datatype event =
    AccountCreated uint256 address bytes32
  | BalanceUpdated uint256 uint256 bytes32
  | AuditInitiated uint256 uint256 bytes32
  | AuditCompleted uint256 uint256
  | AuditorTransferred address address

text \<open>
  The contract state: the two public variables, the four mappings (a Solidity mapping is
  total, every key not yet written holds the all-zero value) and the log of emitted
  events, oldest first.
\<close>

record ledger =
  auditor :: address
  totalAccounts :: uint256
  accounts :: "uint256 \<Rightarrow> PrivateAccount"
  auditRecords :: "uint256 \<Rightarrow> AuditRecord"
  userAccounts :: "address \<Rightarrow> uint256 list"
  accountAudits :: "uint256 \<Rightarrow> uint256 list"
  events :: "event list"

text \<open>What a call sees of its transaction and block.\<close>

record env =
  sender :: address
  timestamp :: uint256
  prevrandao :: uint256

definition zero_account :: PrivateAccount where
  "zero_account = \<lparr>encryptedBalance = 0, encryptedTransactions = 0, isActive = False,
     lastUpdated = 0, accountOwner = 0, accountType = 0\<rparr>"

definition zero_audit :: AuditRecord where
  "zero_audit = \<lparr>accountId = 0, auditedBalance = 0, discrepancyFlag = 0,
     auditTimestamp = 0, isCompleted = False, auditType = 0\<rparr>"

subsection \<open>Reverts\<close>

text \<open>
  The revert reasons of the contract, under the names the ledger's error taxonomy gives
  them:
  \<^item> \<open>Unauthorized\<close>: "caller is not the auditor", "caller is not account owner",
    "unauthorized access to encrypted balance", "unauthorized access to encrypted
    transactions";
  \<^item> \<open>InvalidAccount\<close>: "invalid account ID";
  \<^item> \<open>InactiveAccount\<close>: "account is not active";
  \<^item> \<open>AuditNotFound\<close>: "audit does not exist";
  \<^item> \<open>AuditAlreadyCompleted\<close>: "audit already completed";
  \<^item> \<open>InvalidAuditor\<close>: "new auditor cannot be zero address", "new auditor cannot be
    current auditor";
  \<^item> \<open>ArithmeticPanic\<close>: the panic of checked arithmetic (\<^verbatim>\<open>totalAccounts++\<close> at the
    largest \<^verbatim>\<open>uint256\<close>).
\<close>

datatype error =
    Unauthorized
  | InvalidAccount
  | InactiveAccount
  | AuditNotFound
  | AuditAlreadyCompleted
  | InvalidAuditor
  | ArithmeticPanic

text \<open>
  A function body is a computation over the storage that either returns a value or stops
  at a failed \<^verbatim>\<open>require\<close>. The storage it hands back on failure is the storage as it was
  when the check failed, with every write made so far still in it: the roll-back is the
  job of \<open>call\<close> below, as it is the job of the virtual machine and not of the contract.
\<close>

type_synonym 'a tx = "ledger \<Rightarrow> (error + 'a) \<times> ledger"

definition return_tx :: "'a \<Rightarrow> 'a tx" where
  "return_tx x s = (Inr x, s)"

definition bind_tx :: "'a tx \<Rightarrow> ('a \<Rightarrow> 'b tx) \<Rightarrow> 'b tx" where
  "bind_tx m f s = (case m s of (Inl e, s') \<Rightarrow> (Inl e, s') | (Inr x, s') \<Rightarrow> f x s')"

definition require :: "(ledger \<Rightarrow> bool) \<Rightarrow> error \<Rightarrow> unit tx" where
  "require c e s = (if c s then (Inr (), s) else (Inl e, s))"

definition modify :: "(ledger \<Rightarrow> ledger) \<Rightarrow> unit tx" where
  "modify f s = (Inr (), f s)"

definition gets :: "(ledger \<Rightarrow> 'a) \<Rightarrow> 'a tx" where
  "gets f s = (Inr (f s), s)"

definition emit :: "event \<Rightarrow> unit tx" where
  "emit ev = modify (\<lambda>s. s\<lparr>events := events s @ [ev]\<rparr>)"

text \<open>Statements in sequence.\<close>

fun steps :: "unit tx list \<Rightarrow> unit tx" where
  "steps [] = return_tx ()"
| "steps (m # ms) = bind_tx m (\<lambda>_. steps ms)"

text \<open>
  An external call: a revert discards every write of the call, events included.
\<close>

definition call :: "'a tx \<Rightarrow> 'a tx" where
  "call m s = (case m s of (Inl e, s') \<Rightarrow> (Inl e, s) | (Inr x, s') \<Rightarrow> (Inr x, s'))"

subsection \<open>Modifiers\<close>

definition onlyAuditor :: "env \<Rightarrow> unit tx" where
  "onlyAuditor e = require (\<lambda>s. sender e = auditor s) Unauthorized"

definition onlyAccountOwner :: "env \<Rightarrow> uint256 \<Rightarrow> unit tx" where
  "onlyAccountOwner e accId =
     require (\<lambda>s. accountOwner (accounts s accId) = sender e) Unauthorized"

definition validAccount :: "uint256 \<Rightarrow> unit tx" where
  "validAccount accId = require (\<lambda>s. accId > 0 \<and> accId \<le> totalAccounts s) InvalidAccount"

definition activeAccount :: "uint256 \<Rightarrow> unit tx" where
  "activeAccount accId = require (\<lambda>s. isActive (accounts s accId)) InactiveAccount"

subsection \<open>Constructor and state-changing functions\<close>

text \<open>
  \<open>keccak256\<close> is a parameter of every function that hashes: nothing below depends on
  which function from byte strings to 32-byte words it is.
\<close>

definition constructor :: "env \<Rightarrow> ledger" where
  "constructor e = \<lparr>auditor = sender e, totalAccounts = 0,
     accounts = (\<lambda>_. zero_account), auditRecords = (\<lambda>_. zero_audit),
     userAccounts = (\<lambda>_. []), accountAudits = (\<lambda>_. []), events = []\<rparr>"

definition createAccount :: "(bytes \<Rightarrow> bytes32) \<Rightarrow> env \<Rightarrow> bytes \<Rightarrow> string \<Rightarrow> uint256 tx" where
  "createAccount keccak256 e encBalance accType =
    (let balanceHash = keccak256 encBalance;
         accountTypeHash = keccak256 (encodePacked_string accType)
     in bind_tx (require (\<lambda>s. totalAccounts s \<noteq> - 1) ArithmeticPanic) (\<lambda>_.
        bind_tx (modify (\<lambda>s. s\<lparr>totalAccounts := totalAccounts s + 1\<rparr>)) (\<lambda>_.
        bind_tx (gets totalAccounts) (\<lambda>accId.
        bind_tx (steps [
          modify (\<lambda>s. s\<lparr>accounts := (accounts s)(accId :=
            \<lparr>encryptedBalance = balanceHash,
             encryptedTransactions = keccak256 (encodePacked_uint256 0),
             isActive = True,
             lastUpdated = timestamp e,
             accountOwner = sender e,
             accountType = accountTypeHash\<rparr>)\<rparr>),
          modify (\<lambda>s. s\<lparr>userAccounts := (userAccounts s)(sender e :=
            userAccounts s (sender e) @ [accId])\<rparr>),
          emit (AccountCreated accId (sender e) accountTypeHash)]) (\<lambda>_.
        return_tx accId)))))"

definition updateBalance ::
  "(bytes \<Rightarrow> bytes32) \<Rightarrow> env \<Rightarrow> uint256 \<Rightarrow> bytes \<Rightarrow> string \<Rightarrow> unit tx" where
  "updateBalance keccak256 e accId encNewBalance updateType =
    (let newBalanceHash = keccak256 encNewBalance;
         updateTypeHash = keccak256 (encodePacked_string updateType)
     in steps [
          validAccount accId,
          onlyAccountOwner e accId,
          activeAccount accId,
          modify (\<lambda>s. s\<lparr>accounts := (accounts s)(accId :=
            (accounts s accId)\<lparr>encryptedBalance := newBalanceHash\<rparr>)\<rparr>),
          modify (\<lambda>s. s\<lparr>accounts := (accounts s)(accId :=
            (accounts s accId)\<lparr>lastUpdated := timestamp e\<rparr>)\<rparr>),
          bind_tx (gets (\<lambda>s. encryptedTransactions (accounts s accId))) (\<lambda>currentTxCount.
            let newTxCount = keccak256 (encodePacked_uint256 currentTxCount @
                                        encodePacked_uint256 1)
            in modify (\<lambda>s. s\<lparr>accounts := (accounts s)(accId :=
                 (accounts s accId)\<lparr>encryptedTransactions := newTxCount\<rparr>)\<rparr>)),
          emit (BalanceUpdated accId (timestamp e) updateTypeHash)])"

text \<open>The audit id: the hash of block time, block randomness, account id and caller.\<close>

definition deriveAuditId :: "(bytes \<Rightarrow> bytes32) \<Rightarrow> env \<Rightarrow> uint256 \<Rightarrow> uint256" where
  "deriveAuditId keccak256 e accId =
     keccak256 (encodePacked_uint256 (timestamp e) @ encodePacked_uint256 (prevrandao e) @
                encodePacked_uint256 accId @ encodePacked_address (sender e))"

definition initiateAudit :: "(bytes \<Rightarrow> bytes32) \<Rightarrow> env \<Rightarrow> uint256 \<Rightarrow> string \<Rightarrow> uint256 tx" where
  "initiateAudit keccak256 e accId audType =
    bind_tx (steps [onlyAuditor e, validAccount accId, activeAccount accId]) (\<lambda>_.
    let auditId = deriveAuditId keccak256 e accId;
        auditTypeHash = keccak256 (encodePacked_string audType)
    in bind_tx (gets (\<lambda>s. encryptedBalance (accounts s accId))) (\<lambda>auditBalance.
       let defaultFlag = keccak256 (encodePacked_uint256 0)
       in bind_tx (steps [
            modify (\<lambda>s. s\<lparr>auditRecords := (auditRecords s)(auditId :=
              \<lparr>accountId = accId,
               auditedBalance = auditBalance,
               discrepancyFlag = defaultFlag,
               auditTimestamp = timestamp e,
               isCompleted = False,
               auditType = auditTypeHash\<rparr>)\<rparr>),
            modify (\<lambda>s. s\<lparr>accountAudits := (accountAudits s)(accId :=
              accountAudits s accId @ [auditId])\<rparr>),
            emit (AuditInitiated accId auditId auditTypeHash)]) (\<lambda>_.
          return_tx auditId)))"

definition completeAudit :: "(bytes \<Rightarrow> bytes32) \<Rightarrow> env \<Rightarrow> uint256 \<Rightarrow> bytes \<Rightarrow> unit tx" where
  "completeAudit keccak256 e auditId encFlag =
    steps [
      onlyAuditor e,
      require (\<lambda>s. accountId (auditRecords s auditId) \<noteq> 0) AuditNotFound,
      require (\<lambda>s. \<not> isCompleted (auditRecords s auditId)) AuditAlreadyCompleted,
      (let flagHash = keccak256 encFlag
       in steps [
         modify (\<lambda>s. s\<lparr>auditRecords := (auditRecords s)(auditId :=
           (auditRecords s auditId)\<lparr>discrepancyFlag := flagHash\<rparr>)\<rparr>),
         modify (\<lambda>s. s\<lparr>auditRecords := (auditRecords s)(auditId :=
           (auditRecords s auditId)\<lparr>isCompleted := True\<rparr>)\<rparr>),
         bind_tx (gets (\<lambda>s. accountId (auditRecords s auditId))) (\<lambda>accId.
           emit (AuditCompleted accId auditId))])]"

definition deactivateAccount :: "env \<Rightarrow> uint256 \<Rightarrow> unit tx" where
  "deactivateAccount e accId =
    steps [
      validAccount accId,
      onlyAccountOwner e accId,
      modify (\<lambda>s. s\<lparr>accounts := (accounts s)(accId :=
        (accounts s accId)\<lparr>isActive := False\<rparr>)\<rparr>)]"

definition reactivateAccount :: "env \<Rightarrow> uint256 \<Rightarrow> unit tx" where
  "reactivateAccount e accId =
    steps [
      validAccount accId,
      onlyAccountOwner e accId,
      modify (\<lambda>s. s\<lparr>accounts := (accounts s)(accId :=
        (accounts s accId)\<lparr>isActive := True\<rparr>)\<rparr>)]"

definition transferAuditor :: "env \<Rightarrow> address \<Rightarrow> unit tx" where
  "transferAuditor e newAuditor =
    steps [
      onlyAuditor e,
      require (\<lambda>s. newAuditor \<noteq> 0) InvalidAuditor,
      require (\<lambda>s. newAuditor \<noteq> auditor s) InvalidAuditor,
      bind_tx (gets auditor) (\<lambda>previousAuditor.
        steps [
          modify (\<lambda>s. s\<lparr>auditor := newAuditor\<rparr>),
          emit (AuditorTransferred previousAuditor newAuditor)])]"

subsection \<open>View functions\<close>

definition getAccountInfo :: "uint256 \<Rightarrow> (bool \<times> uint256 \<times> address \<times> bytes32) tx" where
  "getAccountInfo accId =
    bind_tx (validAccount accId) (\<lambda>_.
    gets (\<lambda>s. let account = accounts s accId
               in (isActive account, lastUpdated account, accountOwner account,
                   accountType account)))"

definition getUserAccounts :: "address \<Rightarrow> uint256 list tx" where
  "getUserAccounts user = gets (\<lambda>s. userAccounts s user)"

definition getEncryptedBalance :: "env \<Rightarrow> uint256 \<Rightarrow> bytes32 tx" where
  "getEncryptedBalance e accId =
    bind_tx (validAccount accId) (\<lambda>_.
    bind_tx (require (\<lambda>s. sender e = accountOwner (accounts s accId) \<or> sender e = auditor s)
               Unauthorized) (\<lambda>_.
    gets (\<lambda>s. encryptedBalance (accounts s accId))))"

definition getEncryptedTransactions :: "env \<Rightarrow> uint256 \<Rightarrow> bytes32 tx" where
  "getEncryptedTransactions e accId =
    bind_tx (validAccount accId) (\<lambda>_.
    bind_tx (require (\<lambda>s. sender e = accountOwner (accounts s accId) \<or> sender e = auditor s)
               Unauthorized) (\<lambda>_.
    gets (\<lambda>s. encryptedTransactions (accounts s accId))))"

definition getAuditRecord :: "env \<Rightarrow> uint256 \<Rightarrow> (uint256 \<times> uint256 \<times> bool \<times> bytes32) tx" where
  "getAuditRecord e auditId =
    bind_tx (onlyAuditor e) (\<lambda>_.
    bind_tx (require (\<lambda>s. accountId (auditRecords s auditId) \<noteq> 0) AuditNotFound) (\<lambda>_.
    gets (\<lambda>s. let record = auditRecords s auditId
               in (accountId record, auditTimestamp record, isCompleted record,
                   auditType record))))"

definition getAuditFlag :: "env \<Rightarrow> uint256 \<Rightarrow> bytes32 tx" where
  "getAuditFlag e auditId =
    bind_tx (onlyAuditor e) (\<lambda>_.
    bind_tx (require (\<lambda>s. accountId (auditRecords s auditId) \<noteq> 0) AuditNotFound) (\<lambda>_.
    gets (\<lambda>s. discrepancyFlag (auditRecords s auditId))))"

definition getAccountAudits :: "uint256 \<Rightarrow> uint256 list tx" where
  "getAccountAudits accId =
    bind_tx (validAccount accId) (\<lambda>_. gets (\<lambda>s. accountAudits s accId))"

definition getTotalAccounts :: "uint256 tx" where
  "getTotalAccounts = gets totalAccounts"

subsection \<open>Calls, one after another\<close>

text \<open>
  The seven state-changing entry points as data, so that a history of the contract is a
  list of calls, each with the transaction and block it ran in.
\<close>

datatype operation =
    CreateAccount bytes string
  | UpdateBalance uint256 bytes string
  | InitiateAudit uint256 string
  | CompleteAudit uint256 bytes
  | DeactivateAccount uint256
  | ReactivateAccount uint256
  | TransferAuditor address

fun dispatch :: "(bytes \<Rightarrow> bytes32) \<Rightarrow> env \<Rightarrow> operation \<Rightarrow> uint256 option tx" where
  "dispatch H e (CreateAccount b t) = bind_tx (createAccount H e b t) (\<lambda>i. return_tx (Some i))"
| "dispatch H e (UpdateBalance a b u) = bind_tx (updateBalance H e a b u) (\<lambda>_. return_tx None)"
| "dispatch H e (InitiateAudit a t) = bind_tx (initiateAudit H e a t) (\<lambda>i. return_tx (Some i))"
| "dispatch H e (CompleteAudit i f) = bind_tx (completeAudit H e i f) (\<lambda>_. return_tx None)"
| "dispatch H e (DeactivateAccount a) = bind_tx (deactivateAccount e a) (\<lambda>_. return_tx None)"
| "dispatch H e (ReactivateAccount a) = bind_tx (reactivateAccount e a) (\<lambda>_. return_tx None)"
| "dispatch H e (TransferAuditor n) = bind_tx (transferAuditor e n) (\<lambda>_. return_tx None)"

text \<open>The storage after one external call, reverted or not, and after a list of them.\<close>

definition exec :: "(bytes \<Rightarrow> bytes32) \<Rightarrow> ledger \<Rightarrow> env \<times> operation \<Rightarrow> ledger" where
  "exec H s c = snd (call (dispatch H (fst c) (snd c)) s)"

fun run :: "(bytes \<Rightarrow> bytes32) \<Rightarrow> ledger \<Rightarrow> (env \<times> operation) list \<Rightarrow> ledger" where
  "run H s [] = s"
| "run H s (c # cs) = run H (exec H s c) cs"

text \<open>The audit ids that the successful \<^verbatim>\<open>initiateAudit\<close> calls of a history returned.\<close>

fun initiatedBy :: "(bytes \<Rightarrow> bytes32) \<Rightarrow> ledger \<Rightarrow> env \<times> operation \<Rightarrow> uint256 list" where
  "initiatedBy H s (e, InitiateAudit a t) =
     (case fst (call (initiateAudit H e a t) s) of Inr i \<Rightarrow> [i] | Inl _ \<Rightarrow> [])"
| "initiatedBy H s (e, _) = []"

fun initiated :: "(bytes \<Rightarrow> bytes32) \<Rightarrow> ledger \<Rightarrow> (env \<times> operation) list \<Rightarrow> uint256 list" where
  "initiated H s [] = []"
| "initiated H s (c # cs) = initiatedBy H s c @ initiated H (exec H s c) cs"

text \<open>
  A run of \<^verbatim>\<open>createAccount\<close> calls that stops at the first revert and otherwise returns
  the ids in call order.
\<close>

fun createAccounts :: "(bytes \<Rightarrow> bytes32) \<Rightarrow> (env \<times> bytes \<times> string) list \<Rightarrow> uint256 list tx" where
  "createAccounts H [] = return_tx []"
| "createAccounts H ((e, b, t) # cs) =
     bind_tx (call (createAccount H e b t)) (\<lambda>i.
     bind_tx (createAccounts H cs) (\<lambda>ids. return_tx (i # ids)))"

subsection \<open>Guards as predicates\<close>

text \<open>
  The modifier list of \<^verbatim>\<open>initiateAudit\<close> and the checks of \<^verbatim>\<open>completeAudit\<close>, each as one
  predicate of the storage; \<open>initiateAudit_ok_iff\<close> and \<open>completeAudit_ok_iff\<close> below
  show that they are exactly the conditions under which the functions return.
\<close>

definition canInitiate :: "env \<Rightarrow> uint256 \<Rightarrow> ledger \<Rightarrow> bool" where
  "canInitiate e a s \<longleftrightarrow>
     sender e = auditor s \<and> 0 < a \<and> a \<le> totalAccounts s \<and> isActive (accounts s a)"

definition canComplete :: "env \<Rightarrow> uint256 \<Rightarrow> ledger \<Rightarrow> bool" where
  "canComplete e i s \<longleftrightarrow>
     sender e = auditor s \<and> accountId (auditRecords s i) \<noteq> 0 \<and>
     \<not> isCompleted (auditRecords s i)"

text \<open>
  The audit mapping is well formed for a set \<open>I\<close> of ids: the records with a non-zero
  account id are those stored under the ids of \<open>I\<close>, and no record names an account
  beyond \<^verbatim>\<open>totalAccounts\<close>.
\<close>

definition audits_wf :: "ledger \<Rightarrow> uint256 set \<Rightarrow> bool" where
  "audits_wf s I \<longleftrightarrow>
     (\<forall>i. (accountId (auditRecords s i) \<noteq> 0) = (i \<in> I)) \<and>
     (\<forall>i. accountId (auditRecords s i) \<le> totalAccounts s)"

subsection \<open>Concrete callers and ledgers\<close>

text \<open>
  A stand-in of the type of \<^verbatim>\<open>keccak256\<close>, to run the functions on concrete inputs. The
  general statements below hold for all hash functions; only the worked examples use
  this one, and none of them needs its values.
\<close>

definition toy_keccak256 :: "bytes \<Rightarrow> bytes32" where
  "toy_keccak256 bs = foldl (\<lambda>h b. 257 * h + ucast b + 1) 0 bs"

text \<open>Three callers within one block: the deployer (the first auditor), an owner, a third party.\<close>

definition auditor_env :: env where
  "auditor_env = \<lparr>sender = 0xA1, timestamp = 1700000000, prevrandao = 77\<rparr>"

definition owner_env :: env where
  "owner_env = \<lparr>sender = 0xB2, timestamp = 1700000000, prevrandao = 77\<rparr>"

definition other_env :: env where
  "other_env = \<lparr>sender = 0xC3, timestamp = 1700000000, prevrandao = 77\<rparr>"

text \<open>The owner opens account 1 with encrypted balance "1000".\<close>

definition ledger_with_account :: ledger where
  "ledger_with_account =
     run toy_keccak256 (constructor auditor_env)
       [(owner_env, CreateAccount [0x31, 0x30, 0x30, 0x30] ''company'')]"

text \<open>Then the auditor opens an audit of account 1.\<close>

definition audit1 :: uint256 where
  "audit1 = deriveAuditId toy_keccak256 auditor_env 1"

definition ledger_with_audit :: ledger where
  "ledger_with_audit =
     run toy_keccak256 ledger_with_account [(auditor_env, InitiateAudit 1 ''compliance'')]"

text \<open>Then the owner deactivates the account under audit.\<close>

definition ledger_audit_deactivated :: ledger where
  "ledger_audit_deactivated =
     run toy_keccak256 ledger_with_audit [(owner_env, DeactivateAccount 1)]"

text \<open>A ledger whose account counter is at the largest \<^verbatim>\<open>uint256\<close>.\<close>

definition ledger_full :: ledger where
  "ledger_full = (constructor auditor_env)\<lparr>totalAccounts := - 1\<rparr>"

text \<open>
  Two histories within one block, for any hash function. In the first the owner opens
  account 1, the auditor initiates an audit of it and completes that audit; in the
  second the owner opens account 1, the auditor initiates an audit of it and the owner
  updates the balance.
\<close>

definition audited_and_completed :: "(bytes \<Rightarrow> bytes32) \<Rightarrow> (env \<times> operation) list" where
  "audited_and_completed H =
     [(owner_env, CreateAccount [0x31, 0x30, 0x30, 0x30] ''company''),
      (auditor_env, InitiateAudit 1 ''compliance''),
      (auditor_env, CompleteAudit (deriveAuditId H auditor_env 1) [0x30])]"

definition audited_and_updated :: "(env \<times> operation) list" where
  "audited_and_updated =
     [(owner_env, CreateAccount [0x31, 0x30, 0x30, 0x30] ''company''),
      (auditor_env, InitiateAudit 1 ''compliance''),
      (owner_env, UpdateBalance 1 [0x31, 0x35, 0x30, 0x30] ''deposit'')]"

section \<open>Properties\<close>

subsection \<open>Unfolding the function bodies\<close>

lemmas tx_defs = return_tx_def bind_tx_def require_def modify_def gets_def emit_def
  onlyAuditor_def onlyAccountOwner_def validAccount_def activeAccount_def

lemmas body_defs = createAccount_def updateBalance_def initiateAudit_def completeAudit_def
  deactivateAccount_def reactivateAccount_def transferAuditor_def

lemmas view_defs = getAccountInfo_def getUserAccounts_def getEncryptedBalance_def
  getEncryptedTransactions_def getAuditRecord_def getAuditFlag_def getAccountAudits_def
  getTotalAccounts_def

lemmas example_defs = auditor_env_def owner_env_def other_env_def ledger_with_account_def
  audit1_def ledger_with_audit_def constructor_def exec_def call_def

lemma call_ok: "call m s = (Inr x, s') \<longleftrightarrow> m s = (Inr x, s')"
  by (auto simp: call_def split: prod.splits sum.splits)

lemma isActive_update_same: "isActive r = b \<Longrightarrow> r\<lparr>isActive := b\<rparr> = r"
  by (cases r) auto

lemma unat_inc: "(t :: uint256) \<noteq> - 1 \<Longrightarrow> unat (t + 1) = Suc (unat t)"
  using unatSuc [of t] by (simp add: add.commute add_eq_0_iff)

lemma upt_shift: "[Suc k ..< Suc (k + Suc n)] = Suc k # [Suc (Suc k) ..< Suc (Suc k + n)]"
  by (simp add: upt_conv_Cons)

subsection \<open>A failed check precedes every write\<close>

lemma createAccount_err:
  "isl (fst (createAccount H e b t s)) \<Longrightarrow> snd (createAccount H e b t s) = s"
  by (auto simp: createAccount_def tx_defs Let_def split: if_splits)

lemma updateBalance_err:
  "isl (fst (updateBalance H e a b u s)) \<Longrightarrow> snd (updateBalance H e a b u s) = s"
  by (auto simp: updateBalance_def tx_defs Let_def split: if_splits)

lemma initiateAudit_err:
  "isl (fst (initiateAudit H e a t s)) \<Longrightarrow> snd (initiateAudit H e a t s) = s"
  by (auto simp: initiateAudit_def tx_defs Let_def split: if_splits)

lemma completeAudit_err:
  "isl (fst (completeAudit H e i f s)) \<Longrightarrow> snd (completeAudit H e i f s) = s"
  by (auto simp: completeAudit_def tx_defs Let_def split: if_splits)

lemma deactivateAccount_err:
  "isl (fst (deactivateAccount e a s)) \<Longrightarrow> snd (deactivateAccount e a s) = s"
  by (auto simp: deactivateAccount_def tx_defs split: if_splits)

lemma reactivateAccount_err:
  "isl (fst (reactivateAccount e a s)) \<Longrightarrow> snd (reactivateAccount e a s) = s"
  by (auto simp: reactivateAccount_def tx_defs split: if_splits)

lemma transferAuditor_err:
  "isl (fst (transferAuditor e n s)) \<Longrightarrow> snd (transferAuditor e n s) = s"
  by (auto simp: transferAuditor_def tx_defs split: if_splits)

lemma views_read_only:
  "snd (getAccountInfo a s) = s"
  "snd (getUserAccounts usr s) = s"
  "snd (getEncryptedBalance e a s) = s"
  "snd (getEncryptedTransactions e a s) = s"
  "snd (getAuditRecord e i s) = s"
  "snd (getAuditFlag e i s) = s"
  "snd (getAccountAudits a s) = s"
  "snd (getTotalAccounts s) = s"
  by (auto simp: view_defs tx_defs)

text \<open>
  C3. Whenever one of the seven state-changing functions stops at an error (any revert
  reason, the arithmetic panic of \<^verbatim>\<open>createAccount\<close> included), the storage at that moment
  is the storage the call started from: in every body all checks come before the first
  write, so the failure is detected before any mutation and nothing is left to undo.
  The view functions never write at all.
\<close>

theorem error_before_any_mutation:
  "(isl (fst (createAccount H e b t s)) \<longrightarrow> snd (createAccount H e b t s) = s) \<and>
   (isl (fst (updateBalance H e a b u s)) \<longrightarrow> snd (updateBalance H e a b u s) = s) \<and>
   (isl (fst (initiateAudit H e a t s)) \<longrightarrow> snd (initiateAudit H e a t s) = s) \<and>
   (isl (fst (completeAudit H e i f s)) \<longrightarrow> snd (completeAudit H e i f s) = s) \<and>
   (isl (fst (deactivateAccount e a s)) \<longrightarrow> snd (deactivateAccount e a s) = s) \<and>
   (isl (fst (reactivateAccount e a s)) \<longrightarrow> snd (reactivateAccount e a s) = s) \<and>
   (isl (fst (transferAuditor e n s)) \<longrightarrow> snd (transferAuditor e n s) = s) \<and>
   snd (getAccountInfo a s) = s \<and> snd (getUserAccounts usr s) = s \<and>
   snd (getEncryptedBalance e a s) = s \<and> snd (getEncryptedTransactions e a s) = s \<and>
   snd (getAuditRecord e i s) = s \<and> snd (getAuditFlag e i s) = s \<and>
   snd (getAccountAudits a s) = s \<and> snd (getTotalAccounts s) = s"
  using createAccount_err [of H e b t s] updateBalance_err [of H e a b u s]
    initiateAudit_err [of H e a t s] completeAudit_err [of H e i f s]
    deactivateAccount_err [of e a s] reactivateAccount_err [of e a s]
    transferAuditor_err [of e n s]
  by (simp only: views_read_only) blast

text \<open>
  On a ledger whose counter is full, called by a third party for account 0: all seven
  functions fail, with five different errors, and hand the storage back untouched.
\<close>

theorem error_before_any_mutation_witness:
  "createAccount toy_keccak256 other_env [0x31] ''company'' ledger_full
     = (Inl ArithmeticPanic, ledger_full) \<and>
   updateBalance toy_keccak256 other_env 0 [0x31] ''deposit'' ledger_full
     = (Inl InvalidAccount, ledger_full) \<and>
   initiateAudit toy_keccak256 other_env 0 ''company'' ledger_full
     = (Inl Unauthorized, ledger_full) \<and>
   completeAudit toy_keccak256 other_env 5 [0x30] ledger_full
     = (Inl Unauthorized, ledger_full) \<and>
   deactivateAccount other_env 0 ledger_full = (Inl InvalidAccount, ledger_full) \<and>
   reactivateAccount other_env 0 ledger_full = (Inl InvalidAccount, ledger_full) \<and>
   transferAuditor other_env 0xC3 ledger_full = (Inl Unauthorized, ledger_full)"
  using error_before_any_mutation [where H = toy_keccak256 and e = other_env and b = "[0x31]"
    and t = "''company''" and s = ledger_full and a = 0 and u = "''deposit''" and i = 5
    and f = "[0x30]" and n = "0xC3"]
  by (simp add: body_defs tx_defs example_defs ledger_full_def Let_def)

subsection \<open>Ownership and the active flag\<close>

text \<open>
  C7. For a valid account id, \<^verbatim>\<open>updateBalance\<close> called by anyone but the account's owner
  fails with the owner check's error and writes nothing. Nothing is assumed about the
  caller beyond that, so the current auditor is refused like everyone else.
\<close>

theorem updateBalance_only_owner:
  assumes "0 < a" and "a \<le> totalAccounts s"
    and "sender e \<noteq> accountOwner (accounts s a)"
  shows "updateBalance H e a b u s = (Inl Unauthorized, s)"
  using assms by (auto simp: updateBalance_def tx_defs Let_def)

theorem updateBalance_only_owner_witness:
  "sender auditor_env = auditor ledger_with_account \<and>
   updateBalance toy_keccak256 auditor_env 1 [0x31, 0x35, 0x30, 0x30] ''deposit''
     ledger_with_account = (Inl Unauthorized, ledger_with_account)"
  using updateBalance_only_owner [where a = 1 and s = ledger_with_account
    and e = auditor_env and H = toy_keccak256 and b = "[0x31, 0x35, 0x30, 0x30]"
    and u = "''deposit''"]
  by (simp add: body_defs tx_defs example_defs Let_def)

text \<open>
  C8. For a valid account and its owner as caller: \<^verbatim>\<open>deactivateAccount\<close> followed by
  \<^verbatim>\<open>reactivateAccount\<close> both succeed and leave the account active with the owner and
  the account type it had; deactivating an inactive account and reactivating an active
  one succeed and change nothing at all, and each of the two functions, run a second
  time, changes nothing; \<^verbatim>\<open>updateBalance\<close> on an inactive account fails with the
  active-account error.
\<close>

theorem deactivate_reactivate:
  assumes "0 < a" and "a \<le> totalAccounts s"
    and "accountOwner (accounts s a) = sender e"
  shows "(\<exists>s1 s2. deactivateAccount e a s = (Inr (), s1) \<and>
           reactivateAccount e a s1 = (Inr (), s2) \<and>
           \<not> isActive (accounts s1 a) \<and> isActive (accounts s2 a) \<and>
           accountOwner (accounts s2 a) = accountOwner (accounts s a) \<and>
           accountType (accounts s2 a) = accountType (accounts s a) \<and>
           deactivateAccount e a s1 = (Inr (), s1) \<and>
           reactivateAccount e a s2 = (Inr (), s2)) \<and>
         (\<not> isActive (accounts s a) \<longrightarrow> deactivateAccount e a s = (Inr (), s)) \<and>
         (isActive (accounts s a) \<longrightarrow> reactivateAccount e a s = (Inr (), s)) \<and>
         (\<not> isActive (accounts s a) \<longrightarrow>
           updateBalance H e a b u s = (Inl InactiveAccount, s))"
  using assms
  by (auto simp: deactivateAccount_def reactivateAccount_def updateBalance_def tx_defs
        isActive_update_same Let_def)

text \<open>
  Account 1 after its owner deactivated it: the owner may deactivate it again without
  effect, cannot update the balance, and gets the active account back by reactivating.
\<close>

theorem deactivate_reactivate_witness:
  "\<not> isActive (accounts ledger_audit_deactivated 1) \<and>
   deactivateAccount owner_env 1 ledger_audit_deactivated
     = (Inr (), ledger_audit_deactivated) \<and>
   updateBalance toy_keccak256 owner_env 1 [0x31, 0x35, 0x30, 0x30] ''deposit''
     ledger_audit_deactivated = (Inl InactiveAccount, ledger_audit_deactivated) \<and>
   isActive (accounts (snd (reactivateAccount owner_env 1 ledger_audit_deactivated)) 1) \<and>
   reactivateAccount owner_env 1 ledger_with_audit = (Inr (), ledger_with_audit)"
  using deactivate_reactivate [where a = 1 and s = ledger_audit_deactivated
      and e = owner_env and H = toy_keccak256 and b = "[0x31, 0x35, 0x30, 0x30]"
      and u = "''deposit''"]
    deactivate_reactivate [where a = 1 and s = ledger_with_audit
      and e = owner_env and H = toy_keccak256 and b = "[0x31, 0x35, 0x30, 0x30]"
      and u = "''deposit''"]
  by (simp add: body_defs tx_defs example_defs ledger_audit_deactivated_def Let_def)

subsection \<open>Completing an audit\<close>

text \<open>
  C6. If \<^verbatim>\<open>completeAudit\<close> succeeds for an audit id, the record is marked completed, and
  a second \<^verbatim>\<open>completeAudit\<close> for the same id by the same caller (with any flag, in any
  block) fails with the already-completed error and leaves the storage exactly as the
  first call left it.
\<close>

theorem completeAudit_twice:
  assumes "completeAudit H e1 i f1 s = (Inr (), s1)"
    and "sender e2 = sender e1"
  shows "isCompleted (auditRecords s1 i) \<and>
         completeAudit H e2 i f2 s1 = (Inl AuditAlreadyCompleted, s1)"
  using assms by (auto simp: completeAudit_def tx_defs Let_def split: if_splits)

theorem completeAudit_twice_witness:
  "fst (completeAudit toy_keccak256 auditor_env audit1 [0x30] ledger_with_audit) = Inr () \<and>
   completeAudit toy_keccak256 auditor_env audit1 [0x31]
       (snd (completeAudit toy_keccak256 auditor_env audit1 [0x30] ledger_with_audit))
     = (Inl AuditAlreadyCompleted,
        snd (completeAudit toy_keccak256 auditor_env audit1 [0x30] ledger_with_audit))"
  using completeAudit_twice [where H = toy_keccak256 and ?e1.0 = auditor_env and i = audit1
    and ?f1.0 = "[0x30]" and s = ledger_with_audit and ?e2.0 = auditor_env
    and ?f2.0 = "[0x31]"
    and ?s1.0 = "snd (completeAudit toy_keccak256 auditor_env audit1 [0x30] ledger_with_audit)"]
  by (simp add: body_defs tx_defs example_defs Let_def)

lemma completeAudit_ok_iff:
  "fst (completeAudit H e i f s) = Inr () \<longleftrightarrow> canComplete e i s"
  by (auto simp: completeAudit_def canComplete_def tx_defs Let_def)

text \<open>
  C9. \<^verbatim>\<open>completeAudit\<close> never looks at the audited account: called by the current
  auditor for a record that exists and is not completed, it succeeds and marks the
  record completed, whatever the account's active flag is.
\<close>

theorem completeAudit_ignores_active_flag:
  assumes "sender e = auditor s"
    and "accountId (auditRecords s i) \<noteq> 0"
    and "\<not> isCompleted (auditRecords s i)"
  shows "fst (completeAudit H e i f s) = Inr () \<and>
         isCompleted (auditRecords (snd (completeAudit H e i f s)) i)"
  using assms by (auto simp: completeAudit_def tx_defs Let_def)

text \<open>The audit of account 1 is completed after the owner deactivated the account.\<close>

theorem completeAudit_ignores_active_flag_witness:
  "\<not> isActive (accounts ledger_audit_deactivated
        (accountId (auditRecords ledger_audit_deactivated audit1))) \<and>
   fst (completeAudit toy_keccak256 auditor_env audit1 [0x30] ledger_audit_deactivated)
     = Inr () \<and>
   isCompleted (auditRecords
     (snd (completeAudit toy_keccak256 auditor_env audit1 [0x30] ledger_audit_deactivated))
     audit1)"
  using completeAudit_ignores_active_flag [where e = auditor_env
    and s = ledger_audit_deactivated and i = audit1 and H = toy_keccak256 and f = "[0x30]"]
  by (simp add: body_defs tx_defs example_defs ledger_audit_deactivated_def Let_def)

subsection \<open>Account ids\<close>

lemma createAccount_ok:
  "createAccount H e b t s = (Inr i, s') \<Longrightarrow>
     totalAccounts s \<noteq> - 1 \<and> i = totalAccounts s + 1 \<and> totalAccounts s' = totalAccounts s + 1"
  by (auto simp: createAccount_def tx_defs Let_def split: if_splits)

lemma createAccounts_ids:
  "createAccounts H cs s = (Inr ids, s') \<Longrightarrow>
     map unat ids = [Suc (unat (totalAccounts s)) ..< Suc (unat (totalAccounts s) + length cs)]
     \<and> unat (totalAccounts s') = unat (totalAccounts s) + length cs"
proof (induction cs arbitrary: s ids)
  case Nil
  then show ?case by (simp add: return_tx_def)
next
  case (Cons c cs)
  obtain e b t where c: "c = (e, b, t)" by (cases c)
  from Cons.prems obtain i s1 ids' where
    one: "createAccount H e b t s = (Inr i, s1)" and
    rest: "createAccounts H cs s1 = (Inr ids', s')" and ids: "ids = i # ids'"
    by (auto simp: c bind_tx_def return_tx_def call_ok split: prod.splits sum.splits)
  from createAccount_ok [OF one] have
    i: "unat i = Suc (unat (totalAccounts s))" and
    t1: "unat (totalAccounts s1) = Suc (unat (totalAccounts s))"
    by (simp_all add: unat_inc)
  from Cons.IH [OF rest] t1 i ids show ?case
    using upt_shift [of "unat (totalAccounts s)" "length cs"] by simp
qed

text \<open>
  C5. If every call of a sequence of \<^verbatim>\<open>createAccount\<close> calls on a freshly deployed
  contract succeeds, the ids returned are, read as numbers and in call order, exactly
  1, 2, ..., N for the N calls made (so without gap or repetition), and afterwards
  \<^verbatim>\<open>getTotalAccounts\<close> returns N.
\<close>

theorem createAccount_ids_sequential:
  assumes "createAccounts H cs (constructor d) = (Inr ids, s')"
  shows "map unat ids = [1 ..< Suc (length cs)] \<and> distinct ids \<and>
         getTotalAccounts s' = (Inr (of_nat (length cs)), s') \<and>
         unat (totalAccounts s') = length cs"
proof -
  have t0: "unat (totalAccounts (constructor d)) = 0" by (simp add: constructor_def)
  from createAccounts_ids [OF assms] t0
  have m: "map unat ids = [1 ..< Suc (length cs)]" and n: "unat (totalAccounts s') = length cs"
    by simp_all
  have "distinct (map unat ids)" unfolding m by simp
  then have d: "distinct ids" by (simp add: distinct_map)
  from n have "totalAccounts s' = of_nat (length cs)" by (metis of_nat_unat ucast_id)
  with m d n show ?thesis by (simp add: getTotalAccounts_def gets_def)
qed

text \<open>Three accounts, opened by two different callers, get the ids 1, 2 and 3.\<close>

theorem createAccount_ids_sequential_witness:
  "fst (createAccounts toy_keccak256
          [(owner_env, [0x31], ''company''), (other_env, [0x32], ''personal''),
           (owner_env, [0x33], ''government'')] (constructor auditor_env))
     = Inr [1, 2, 3] \<and>
   fst (getTotalAccounts (snd (createAccounts toy_keccak256
          [(owner_env, [0x31], ''company''), (other_env, [0x32], ''personal''),
           (owner_env, [0x33], ''government'')] (constructor auditor_env)))) = Inr 3"
  using createAccount_ids_sequential [where H = toy_keccak256
    and cs = "[(owner_env, [0x31], ''company''), (other_env, [0x32], ''personal''),
           (owner_env, [0x33], ''government'')]"
    and d = auditor_env and ids = "[1, 2, 3]"
    and s' = "snd (createAccounts toy_keccak256
          [(owner_env, [0x31], ''company''), (other_env, [0x32], ''personal''),
           (owner_env, [0x33], ''government'')] (constructor auditor_env))"]
  by (simp add: body_defs tx_defs view_defs example_defs Let_def)

subsection \<open>What one call does to the audit records and to the account counter\<close>

lemma initiateAudit_ok_iff:
  "fst (initiateAudit H e a t s) = Inr (deriveAuditId H e a) \<longleftrightarrow> canInitiate e a s"
  by (auto simp: initiateAudit_def canInitiate_def tx_defs Let_def)

lemma exec_auditRecords:
  "auditRecords (exec H s (e, opn)) =
    (case opn of
       InitiateAudit a t \<Rightarrow>
         if canInitiate e a s
         then (auditRecords s)(deriveAuditId H e a :=
                \<lparr>accountId = a, auditedBalance = encryptedBalance (accounts s a),
                 discrepancyFlag = H (encodePacked_uint256 0), auditTimestamp = timestamp e,
                 isCompleted = False, auditType = H (encodePacked_string t)\<rparr>)
         else auditRecords s
     | CompleteAudit i f \<Rightarrow>
         if canComplete e i s
         then (auditRecords s)(i :=
                (auditRecords s i)\<lparr>discrepancyFlag := H f, isCompleted := True\<rparr>)
         else auditRecords s
     | _ \<Rightarrow> auditRecords s)"
  by (cases opn)
     (auto simp: exec_def call_def body_defs canInitiate_def canComplete_def tx_defs Let_def)

lemma exec_totalAccounts:
  "totalAccounts (exec H s (e, opn)) =
    (case opn of
       CreateAccount b t \<Rightarrow>
         if totalAccounts s = - 1 then totalAccounts s else totalAccounts s + 1
     | _ \<Rightarrow> totalAccounts s)"
  by (cases opn) (auto simp: exec_def call_def body_defs tx_defs Let_def)

lemma initiatedBy_eq:
  "initiatedBy H s (e, opn) =
    (case opn of
       InitiateAudit a t \<Rightarrow> if canInitiate e a s then [deriveAuditId H e a] else []
     | _ \<Rightarrow> [])"
  by (cases opn) (auto simp: call_def initiateAudit_def canInitiate_def tx_defs Let_def)

lemma totalAccounts_mono: "totalAccounts s \<le> totalAccounts (exec H s c)"
proof (cases c)
  case (Pair e opn)
  have "t \<noteq> - 1 \<Longrightarrow> t \<le> t + 1" for t :: uint256
    by (simp add: word_le_nat_alt unat_inc)
  then show ?thesis by (cases opn) (simp_all add: Pair exec_totalAccounts)
qed

subsection \<open>The existence test of audit records\<close>

lemma audits_wf_step:
  assumes "audits_wf s I"
  shows "audits_wf (exec H s c) (I \<union> set (initiatedBy H s c))"
proof (cases c)
  case (Pair e opn)
  have "totalAccounts s \<le> totalAccounts (exec H s (e, opn))"
    by (rule totalAccounts_mono)
  with assms have le: "accountId (auditRecords s i) \<le> totalAccounts (exec H s (e, opn))" for i
    by (auto simp: audits_wf_def intro: order_trans)
  show ?thesis
  proof (cases opn)
    case (InitiateAudit a t)
    with assms le show ?thesis unfolding Pair
      by (auto simp: audits_wf_def exec_auditRecords initiatedBy_eq exec_totalAccounts
            canInitiate_def)
  next
    case (CompleteAudit i f)
    with assms le show ?thesis unfolding Pair
      by (auto simp: audits_wf_def exec_auditRecords initiatedBy_eq exec_totalAccounts
            canComplete_def)
  next
    case (CreateAccount b t)
    with assms le show ?thesis unfolding Pair
      by (auto simp: audits_wf_def exec_auditRecords initiatedBy_eq)
  next
    case (UpdateBalance a b u)
    with assms le show ?thesis unfolding Pair
      by (auto simp: audits_wf_def exec_auditRecords initiatedBy_eq)
  next
    case (DeactivateAccount a)
    with assms le show ?thesis unfolding Pair
      by (auto simp: audits_wf_def exec_auditRecords initiatedBy_eq)
  next
    case (ReactivateAccount a)
    with assms le show ?thesis unfolding Pair
      by (auto simp: audits_wf_def exec_auditRecords initiatedBy_eq)
  next
    case (TransferAuditor n)
    with assms le show ?thesis unfolding Pair
      by (auto simp: audits_wf_def exec_auditRecords initiatedBy_eq)
  qed
qed

lemma audits_wf_run:
  "audits_wf s I \<Longrightarrow> audits_wf (run H s tr) (I \<union> set (initiated H s tr))"
proof (induction tr arbitrary: s I)
  case Nil
  then show ?case by simp
next
  case (Cons c tr)
  from Cons.IH [OF audits_wf_step [OF Cons.prems, of H c]]
  show ?case by (simp add: Un_assoc)
qed

lemma audits_wf_constructor: "audits_wf (constructor d) {}"
  by (simp add: audits_wf_def constructor_def zero_audit_def)

lemma not_found_iff:
  "sender e = auditor s \<Longrightarrow>
     fst (completeAudit H e i f s) = Inl AuditNotFound \<longleftrightarrow> accountId (auditRecords s i) = 0"
  "sender e = auditor s \<Longrightarrow>
     fst (getAuditRecord e i s) = Inl AuditNotFound \<longleftrightarrow> accountId (auditRecords s i) = 0"
  "sender e = auditor s \<Longrightarrow>
     fst (getAuditFlag e i s) = Inl AuditNotFound \<longleftrightarrow> accountId (auditRecords s i) = 0"
  by (auto simp: completeAudit_def getAuditRecord_def getAuditFlag_def tx_defs Let_def)

text \<open>
  C10. In every ledger reached from deployment by any history of calls (successful or
  reverted), the audit ids whose record has a non-zero account id are exactly the ids
  that the successful \<^verbatim>\<open>initiateAudit\<close> calls of the history returned, and the account id
  of each such record lies between 1 and \<^verbatim>\<open>totalAccounts\<close>. Hence \<^verbatim>\<open>completeAudit\<close>,
  \<^verbatim>\<open>getAuditRecord\<close> and \<^verbatim>\<open>getAuditFlag\<close>, called by the auditor, report a missing audit
  exactly for the ids that no \<^verbatim>\<open>initiateAudit\<close> returned.
\<close>

theorem audit_exists_iff_initiated:
  assumes "s = run H (constructor d) tr"
    and "created = set (initiated H (constructor d) tr)"
  shows "((accountId (auditRecords s i) \<noteq> 0) = (i \<in> created)) \<and>
         (i \<in> created \<longrightarrow>
            1 \<le> accountId (auditRecords s i) \<and> accountId (auditRecords s i) \<le> totalAccounts s) \<and>
         (sender e = auditor s \<longrightarrow>
            ((fst (completeAudit H e i f s) = Inl AuditNotFound) = (i \<notin> created)) \<and>
            ((fst (getAuditRecord e i s) = Inl AuditNotFound) = (i \<notin> created)) \<and>
            ((fst (getAuditFlag e i s) = Inl AuditNotFound) = (i \<notin> created)))"
proof -
  from audits_wf_run [OF audits_wf_constructor, of H d tr] assms
  have wf: "audits_wf s created" by simp
  then have ex: "(accountId (auditRecords s i) \<noteq> 0) = (i \<in> created)"
    and le: "accountId (auditRecords s i) \<le> totalAccounts s"
    by (simp_all add: audits_wf_def)
  have one: "1 \<le> accountId (auditRecords s i)" if "i \<in> created"
    using that ex by (simp add: word_le_nat_alt unat_gt_0 Suc_le_eq)
  from ex le one show ?thesis by (auto simp: not_found_iff)
qed

text \<open>
  After the audit of account 1 was initiated: its id is found and names account 1; the
  id 5, which no call returned, is reported missing.
\<close>

theorem audit_exists_iff_initiated_witness:
  "initiated toy_keccak256 (constructor auditor_env)
     [(owner_env, CreateAccount [0x31, 0x30, 0x30, 0x30] ''company''),
      (auditor_env, InitiateAudit 1 ''compliance'')] = [audit1] \<and>
   accountId (auditRecords ledger_with_audit audit1) = 1 \<and>
   totalAccounts ledger_with_audit = 1 \<and>
   fst (getAuditRecord auditor_env audit1 ledger_with_audit) \<noteq> Inl AuditNotFound"
  using audit_exists_iff_initiated [where s = ledger_with_audit and H = toy_keccak256
    and d = auditor_env
    and tr = "[(owner_env, CreateAccount [0x31, 0x30, 0x30, 0x30] ''company''),
               (auditor_env, InitiateAudit 1 ''compliance'')]"
    and created = "{audit1}" and i = audit1 and e = auditor_env and f = "[0x30]"]
  by (simp add: body_defs tx_defs view_defs example_defs Let_def)

subsection \<open>Events\<close>

lemma createAccount_event:
  "fst (createAccount H e b t s) = Inr i \<Longrightarrow>
     events (snd (createAccount H e b t s))
       = events s @ [AccountCreated i (sender e) (H (encodePacked_string t))]"
  by (auto simp: createAccount_def tx_defs Let_def split: if_splits)

lemma updateBalance_event:
  "fst (updateBalance H e a b u s) = Inr () \<Longrightarrow>
     events (snd (updateBalance H e a b u s))
       = events s @ [BalanceUpdated a (timestamp e) (H (encodePacked_string u))]"
  by (auto simp: updateBalance_def tx_defs Let_def split: if_splits)

lemma initiateAudit_event:
  "fst (initiateAudit H e a t s) = Inr i \<Longrightarrow>
     events (snd (initiateAudit H e a t s))
       = events s @ [AuditInitiated a i (H (encodePacked_string t))]"
  by (auto simp: initiateAudit_def tx_defs Let_def split: if_splits)

lemma completeAudit_event:
  "fst (completeAudit H e i f s) = Inr () \<Longrightarrow>
     events (snd (completeAudit H e i f s))
       = events s @ [AuditCompleted (accountId (auditRecords s i)) i]"
  by (auto simp: completeAudit_def tx_defs Let_def split: if_splits)

lemma transferAuditor_event:
  "fst (transferAuditor e n s) = Inr () \<Longrightarrow>
     events (snd (transferAuditor e n s)) = events s @ [AuditorTransferred (auditor s) n]"
  by (auto simp: transferAuditor_def tx_defs split: if_splits)

lemma activation_no_event:
  "events (snd (deactivateAccount e a s)) = events s"
  "events (snd (reactivateAccount e a s)) = events s"
  by (auto simp: deactivateAccount_def reactivateAccount_def tx_defs split: if_splits)

text \<open>
  C2, as stated, fails: the owner of account 1 deactivates it, the call succeeds and
  turns the account from active to inactive, and the event log is the same as before.
\<close>

theorem deactivateAccount_emits_nothing:
  "fst (deactivateAccount owner_env 1 ledger_with_account) = Inr () \<and>
   isActive (accounts ledger_with_account 1) \<and>
   \<not> isActive (accounts (snd (deactivateAccount owner_env 1 ledger_with_account)) 1) \<and>
   events (snd (deactivateAccount owner_env 1 ledger_with_account))
     = events ledger_with_account"
  by (simp add: body_defs tx_defs example_defs Let_def)

text \<open>
  C2, amended. A successful \<^verbatim>\<open>createAccount\<close>, \<^verbatim>\<open>updateBalance\<close>, \<^verbatim>\<open>initiateAudit\<close>,
  \<^verbatim>\<open>completeAudit\<close> or \<^verbatim>\<open>transferAuditor\<close> appends exactly one event to the log, the one
  that records its transition (\<^verbatim>\<open>AccountCreated\<close>, \<^verbatim>\<open>BalanceUpdated\<close>, \<^verbatim>\<open>AuditInitiated\<close>,
  \<^verbatim>\<open>AuditCompleted\<close>, \<^verbatim>\<open>AuditorTransferred\<close>, with the arguments of the call);
  \<^verbatim>\<open>deactivateAccount\<close> and \<^verbatim>\<open>reactivateAccount\<close> change the active flag and leave the log
  as it is.
\<close>

theorem events_of_successful_calls:
  "(fst (createAccount H ec b t s) = Inr newId \<longrightarrow>
      events (snd (createAccount H ec b t s))
        = events s @ [AccountCreated newId (sender ec) (H (encodePacked_string t))]) \<and>
   (fst (updateBalance H eu a b' u s) = Inr () \<longrightarrow>
      events (snd (updateBalance H eu a b' u s))
        = events s @ [BalanceUpdated a (timestamp eu) (H (encodePacked_string u))]) \<and>
   (fst (initiateAudit H ei a t' s) = Inr newAudit \<longrightarrow>
      events (snd (initiateAudit H ei a t' s))
        = events s @ [AuditInitiated a newAudit (H (encodePacked_string t'))]) \<and>
   (fst (completeAudit H ek i f s) = Inr () \<longrightarrow>
      events (snd (completeAudit H ek i f s))
        = events s @ [AuditCompleted (accountId (auditRecords s i)) i]) \<and>
   (fst (transferAuditor et n s) = Inr () \<longrightarrow>
      events (snd (transferAuditor et n s)) = events s @ [AuditorTransferred (auditor s) n]) \<and>
   (fst (deactivateAccount ed a s) = Inr () \<longrightarrow>
      events (snd (deactivateAccount ed a s)) = events s) \<and>
   (fst (reactivateAccount er a s) = Inr () \<longrightarrow>
      events (snd (reactivateAccount er a s)) = events s)"
  using createAccount_event [of H ec b t s newId] updateBalance_event [of H eu a b' u s]
    initiateAudit_event [of H ei a t' s newAudit] completeAudit_event [of H ek i f s]
    transferAuditor_event [of et n s] activation_no_event [of ed a s]
    activation_no_event [of er a s]
  by blast

text \<open>
  All seven calls succeed on the ledger with account 1 under audit; five of them add
  their event, the two activation calls add none.
\<close>

theorem events_of_successful_calls_witness:
  "events (snd (createAccount toy_keccak256 other_env [0x32] ''personal'' ledger_with_audit))
     = events ledger_with_audit
       @ [AccountCreated 2 0xC3 (toy_keccak256 (encodePacked_string ''personal''))] \<and>
   events (snd (updateBalance toy_keccak256 owner_env 1 [0x33] ''deposit'' ledger_with_audit))
     = events ledger_with_audit
       @ [BalanceUpdated 1 1700000000 (toy_keccak256 (encodePacked_string ''deposit''))] \<and>
   events (snd (initiateAudit toy_keccak256 auditor_env 1 ''financial'' ledger_with_audit))
     = events ledger_with_audit
       @ [AuditInitiated 1 audit1 (toy_keccak256 (encodePacked_string ''financial''))] \<and>
   events (snd (completeAudit toy_keccak256 auditor_env audit1 [0x30] ledger_with_audit))
     = events ledger_with_audit @ [AuditCompleted 1 audit1] \<and>
   events (snd (transferAuditor auditor_env 0xC3 ledger_with_audit))
     = events ledger_with_audit @ [AuditorTransferred 0xA1 0xC3] \<and>
   fst (deactivateAccount owner_env 1 ledger_with_audit) = Inr () \<and>
   events (snd (deactivateAccount owner_env 1 ledger_with_audit)) = events ledger_with_audit \<and>
   fst (reactivateAccount owner_env 1 ledger_with_audit) = Inr () \<and>
   events (snd (reactivateAccount owner_env 1 ledger_with_audit)) = events ledger_with_audit"
  using events_of_successful_calls [where H = toy_keccak256 and s = ledger_with_audit
    and ec = other_env and b = "[0x32]" and t = "''personal''" and newId = 2
    and eu = owner_env and a = 1 and b' = "[0x33]" and u = "''deposit''"
    and ei = auditor_env and t' = "''financial''" and newAudit = audit1
    and ek = auditor_env and i = audit1 and f = "[0x30]"
    and et = auditor_env and n = "0xC3" and ed = owner_env and er = owner_env]
  by (simp add: body_defs tx_defs example_defs Let_def)

subsection \<open>Audit ids and the snapshot\<close>

text \<open>
  A call leaves the record under an audit id alone, up to its completion, unless the call
  is a successful \<^verbatim>\<open>initiateAudit\<close> that derives this very id.
\<close>

lemma exec_keeps_record:
  assumes "i \<notin> set (initiatedBy H s c)"
  shows "accountId (auditRecords (exec H s c) i) = accountId (auditRecords s i) \<and>
         auditedBalance (auditRecords (exec H s c) i) = auditedBalance (auditRecords s i) \<and>
         auditTimestamp (auditRecords (exec H s c) i) = auditTimestamp (auditRecords s i) \<and>
         auditType (auditRecords (exec H s c) i) = auditType (auditRecords s i) \<and>
         (isCompleted (auditRecords s i) \<longrightarrow> isCompleted (auditRecords (exec H s c) i))"
proof (cases c)
  case (Pair e opn)
  with assms show ?thesis
    by (cases opn) (auto simp: exec_auditRecords initiatedBy_eq split: if_splits)
qed

lemma run_keeps_record:
  "i \<notin> set (initiated H s tr) \<Longrightarrow>
     accountId (auditRecords (run H s tr) i) = accountId (auditRecords s i) \<and>
     auditedBalance (auditRecords (run H s tr) i) = auditedBalance (auditRecords s i) \<and>
     auditTimestamp (auditRecords (run H s tr) i) = auditTimestamp (auditRecords s i) \<and>
     auditType (auditRecords (run H s tr) i) = auditType (auditRecords s i) \<and>
     (isCompleted (auditRecords s i) \<longrightarrow> isCompleted (auditRecords (run H s tr) i))"
proof (induction tr arbitrary: s)
  case Nil
  then show ?case by simp
next
  case (Cons c tr)
  from Cons.prems have a: "i \<notin> set (initiatedBy H s c)"
    and b: "i \<notin> set (initiated H (exec H s c) tr)" by simp_all
  from exec_keeps_record [OF a] Cons.IH [OF b] show ?case by simp
qed

lemma initiateAudit_snapshot:
  "canInitiate e a s \<Longrightarrow>
     auditedBalance (auditRecords (exec H s (e, InitiateAudit a t)) (deriveAuditId H e a))
       = encryptedBalance (accounts s a)"
  by (simp add: exec_auditRecords)

text \<open>
  C1 on the code, for every hash function. Within one block the auditor initiates an
  audit of account 1, completes it, and initiates an audit of account 1 again. Both
  \<^verbatim>\<open>initiateAudit\<close> calls succeed and return the same id; the second one replaces the
  completed record by a fresh, uncompleted one, and the account's audit list names the
  id twice.
\<close>

theorem initiateAudit_same_block_same_id:
  "initiated H (constructor auditor_env)
     (audited_and_completed H @ [(auditor_env, InitiateAudit 1 ''financial'')])
     = [deriveAuditId H auditor_env 1, deriveAuditId H auditor_env 1] \<and>
   auditRecords (run H (constructor auditor_env) (audited_and_completed H))
     (deriveAuditId H auditor_env 1)
     = \<lparr>accountId = 1, auditedBalance = H [0x31, 0x30, 0x30, 0x30],
        discrepancyFlag = H [0x30], auditTimestamp = 1700000000,
        isCompleted = True, auditType = H (encodePacked_string ''compliance'')\<rparr> \<and>
   auditRecords (run H (constructor auditor_env)
       (audited_and_completed H @ [(auditor_env, InitiateAudit 1 ''financial'')]))
     (deriveAuditId H auditor_env 1)
     = \<lparr>accountId = 1, auditedBalance = H [0x31, 0x30, 0x30, 0x30],
        discrepancyFlag = H (encodePacked_uint256 0), auditTimestamp = 1700000000,
        isCompleted = False, auditType = H (encodePacked_string ''financial'')\<rparr> \<and>
   accountAudits (run H (constructor auditor_env)
       (audited_and_completed H @ [(auditor_env, InitiateAudit 1 ''financial'')])) 1
     = [deriveAuditId H auditor_env 1, deriveAuditId H auditor_env 1]"
  by (simp add: body_defs tx_defs example_defs audited_and_completed_def Let_def)

text \<open>
  C4 on the code, for every hash function. Within one block the auditor initiates an
  audit of account 1, the owner updates the balance, and the auditor initiates an audit
  of account 1 again. The update leaves the snapshot at the hash of the first balance;
  the second \<^verbatim>\<open>initiateAudit\<close> returns the id of the first and overwrites the snapshot
  stored under it with the hash of the new balance.
\<close>

theorem snapshot_overwritten_in_same_block:
  "initiated H (constructor auditor_env)
     (audited_and_updated @ [(auditor_env, InitiateAudit 1 ''compliance'')])
     = [deriveAuditId H auditor_env 1, deriveAuditId H auditor_env 1] \<and>
   auditedBalance (auditRecords (run H (constructor auditor_env) audited_and_updated)
     (deriveAuditId H auditor_env 1)) = H [0x31, 0x30, 0x30, 0x30] \<and>
   auditedBalance (auditRecords (run H (constructor auditor_env)
       (audited_and_updated @ [(auditor_env, InitiateAudit 1 ''compliance'')]))
     (deriveAuditId H auditor_env 1)) = H [0x31, 0x35, 0x30, 0x30]"
  by (simp add: body_defs tx_defs example_defs audited_and_updated_def Let_def)

end
